theory Spec2Isabelle
  imports Main
begin

section \<open>Data model of the interceptor chain (gin.go)\<close>

subsection \<open>Log events and logging handles\<close>

text \<open>
  Go's \<open>any\<close>: the values stored in the request context by \<open>c.Set\<close> and the value
  recovered from a panic.
\<close>

datatype Any = AnyString string | AnyInt int | AnyErr string

text \<open>
  A \<open>zap.Field\<close> is a key with a typed value. \<open>VTime t utc\<close> is the instant \<open>t\<close>
  (nanoseconds) shown in UTC when \<open>utc\<close> holds and in local time otherwise;
  \<open>VDuration\<close> counts nanoseconds.
\<close>

datatype FieldValue =
    VString string
  | VInt int
  | VDuration int
  | VTime nat bool
  | VAny Any

type_synonym Field = "string \<times> FieldValue"

definition zap_String :: "string \<Rightarrow> string \<Rightarrow> Field" where
  "zap_String k v = (k, VString v)"

definition zap_Int :: "string \<Rightarrow> int \<Rightarrow> Field" where
  "zap_Int k v = (k, VInt v)"

definition zap_Duration :: "string \<Rightarrow> int \<Rightarrow> Field" where
  "zap_Duration k v = (k, VDuration v)"

definition zap_Time :: "string \<Rightarrow> nat \<Rightarrow> bool \<Rightarrow> Field" where
  "zap_Time k t utc = (k, VTime t utc)"


datatype Level = Debug | Info | Warn | Error

record Event =
  ev_level :: Level
  ev_message :: string
  ev_fields :: "Field list"

text \<open>
  The logging backend is outside the repository; the interceptors use it through
  \<open>emit(level, message, fields)\<close> and \<open>bind(fields)\<close>. A handle is the list of fields
  bound to it so far, \<open>GetLogger\<close> is the process-wide handle with nothing bound, and an
  event written through a handle carries the handle's fields before its own.
\<close>

datatype Logger = Logger (bound: "Field list")

definition GetLogger :: Logger where
  "GetLogger = Logger []"

definition With :: "Logger \<Rightarrow> Field list \<Rightarrow> Logger" where
  "With lg fs = Logger (bound lg @ fs)"

definition emit :: "Logger \<Rightarrow> Level \<Rightarrow> string \<Rightarrow> Field list \<Rightarrow> Event" where
  "emit lg lvl msg fs = \<lparr>ev_level = lvl, ev_message = msg, ev_fields = bound lg @ fs\<rparr>"

subsection \<open>Request body streams\<close>

text \<open>
  A body is the bytes still to be read and the way the stream ends: at end of file, or with
  a read error. \<open>io.ReadAll\<close> drains the stream and returns what it read, with the error
  when the stream ends in one; \<open>io.NopCloser(bytes.NewBuffer(b))\<close> is a fresh stream over
  \<open>b\<close> that ends at end of file.
\<close>

datatype ReadEnd = EOF | ReadErr string

datatype Body = Body (pending: string) (ending: ReadEnd)

definition io_ReadAll :: "Body \<Rightarrow> (string \<times> string option) \<times> Body" where
  "io_ReadAll b =
     ((pending b, case ending b of EOF \<Rightarrow> None | ReadErr e \<Rightarrow> Some e),
      Body [] (ending b))"

definition NewBuffer :: "string \<Rightarrow> Body" where
  "NewBuffer bs = Body bs EOF"

subsection \<open>The request context\<close>

text \<open>
  \<open>gin.Context\<close> as the interceptors see it: the request (method, \<open>URL.Path\<close>,
  \<open>URL.RawQuery\<close>, header lookup \<open>Header.Get\<close>, body, declared \<open>ContentLength\<close>, the
  address \<open>ClientIP()\<close> reports), the key/value store \<open>Keys\<close>, the response (headers,
  \<open>Writer.Status()\<close>, \<open>Writer.Size()\<close>, the abort flag), and the clock. The clock is the
  sequence of readings \<open>time.Now()\<close> will return, in nanoseconds since the Unix epoch (a
  clock that does not precede the epoch, so that \<open>UnixNano()\<close> is not negative), with the
  number of readings taken so far; every call of \<open>time.Now()\<close> takes the next reading. A
  body of \<open>None\<close> is a nil \<open>Request.Body\<close>. \<open>Keys\<close> holds values of any type, as
  \<open>c.Set\<close> stores them.
\<close>

record Context =
  Method :: string
  Path :: string
  RawQuery :: string
  ReqHeader :: "string \<Rightarrow> string"
  ReqBody :: "Body option"
  ContentLength :: int
  ClientIP :: string
  Keys :: "string \<rightharpoonup> Any"
  RespHeader :: "string \<rightharpoonup> string"
  Status :: int
  Size :: int
  Aborted :: bool
  Clock :: "nat \<Rightarrow> nat"
  Reads :: nat

definition time_Now :: "Context \<Rightarrow> nat \<times> Context" where
  "time_Now c = (Clock c (Reads c), c\<lparr>Reads := Suc (Reads c)\<rparr>)"

text \<open>\<open>time.Since(start)\<close>: a fresh reading minus \<open>start\<close>, as a duration.\<close>

definition time_Since :: "nat \<Rightarrow> Context \<Rightarrow> int \<times> Context" where
  "time_Since start c = (let (t, c') = time_Now c in (int t - int start, c'))"

definition Second :: int where
  "Second = 1000000000"

text \<open>\<open>c.GetString(key)\<close>: the value under \<open>key\<close> when it is a string, else the empty string.\<close>

definition GetString :: "Context \<Rightarrow> string \<Rightarrow> string" where
  "GetString c k = (case Keys c k of Some (AnyString s) \<Rightarrow> s | _ \<Rightarrow> [])"

definition Set_key :: "string \<Rightarrow> Any \<Rightarrow> Context \<Rightarrow> Context" where
  "Set_key k v c = c\<lparr>Keys := (Keys c)(k \<mapsto> v)\<rparr>"

text \<open>\<open>c.GetHeader(key)\<close> reads the request header.\<close>

definition GetHeader :: "Context \<Rightarrow> string \<Rightarrow> string" where
  "GetHeader c k = ReqHeader c k"

text \<open>\<open>c.Header(key, value)\<close> writes the response header; an empty value deletes it.\<close>

definition Header :: "string \<Rightarrow> string \<Rightarrow> Context \<Rightarrow> Context" where
  "Header k v c =
     (if v = [] then c\<lparr>RespHeader := (RespHeader c)(k := None)\<rparr>
      else c\<lparr>RespHeader := (RespHeader c)(k \<mapsto> v)\<rparr>)"

definition UserAgent :: "Context \<Rightarrow> string" where
  "UserAgent c = ReqHeader c ''User-Agent''"

definition Referer :: "Context \<Rightarrow> string" where
  "Referer c = ReqHeader c ''Referer''"


text \<open>
  A handler either returns or panics with a value; in both cases it leaves the context as
  it changed it and the events it wrote, oldest first. \<open>c.Next()\<close>, the rest of the chain,
  is the handler \<open>next\<close> that every interceptor takes.
\<close>

datatype Result = Returned Context "Event list" | Panicked Any Context "Event list"

type_synonym HandlerFunc = "Context \<Rightarrow> Result"

fun events :: "Result \<Rightarrow> Event list" where
  "events (Returned c es) = es"
| "events (Panicked v c es) = es"

fun ctx_of :: "Result \<Rightarrow> Context" where
  "ctx_of (Returned c es) = c"
| "ctx_of (Panicked v c es) = c"


text \<open>The events an interceptor wrote before calling \<open>c.Next()\<close> precede the chain's.\<close>

fun before :: "Event list \<Rightarrow> Result \<Rightarrow> Result" where
  "before pre (Returned c es) = Returned c (pre @ es)"
| "before pre (Panicked v c es) = Panicked v c (pre @ es)"

subsection \<open>Identity fields\<close>

text \<open>
  The fragment that most interceptors share:
  \<^verbatim>\<open>if requestID := c.GetString("request_id"); requestID != "" { fields = append(...) }\<close>
\<close>

definition request_id_field :: "Context \<Rightarrow> Field list" where
  "request_id_field c =
     (let requestID = GetString c ''request_id'' in
      if requestID \<noteq> [] then [zap_String ''request_id'' requestID] else [])"

definition user_id_field :: "Context \<Rightarrow> Field list" where
  "user_id_field c =
     (let userID = GetString c ''user_id'' in
      if userID \<noteq> [] then [zap_String ''user_id'' userID] else [])"

section \<open>LoggerFromContext\<close>

text \<open>The source's variable \<open>fields\<close> is written \<open>flds\<close> here and below.\<close>

definition LoggerFromContext :: "Context \<Rightarrow> Logger" where
  "LoggerFromContext c =
     (let logger = GetLogger;
          flds = [];
          flds = flds @ request_id_field c;
          flds = flds @ user_id_field c
      in if length flds > 0 then With logger flds else logger)"

section \<open>Path exclusion\<close>

text \<open>
  The interceptors build \<^verbatim>\<open>skipPaths := make(map[string]bool)\<close> from the configured list
  and test \<^verbatim>\<open>skipPaths[c.Request.URL.Path]\<close>; reading a key that is not in a Go map
  gives \<open>false\<close>.
\<close>

definition make_skipPaths :: "string list \<Rightarrow> (string \<rightharpoonup> bool)" where
  "make_skipPaths ps = foldl (\<lambda>m path. m(path \<mapsto> True)) Map.empty ps"

definition lookup_skip :: "(string \<rightharpoonup> bool) \<Rightarrow> string \<Rightarrow> bool" where
  "lookup_skip m path = (case m path of Some b \<Rightarrow> b | None \<Rightarrow> False)"

section \<open>Completion loggers\<close>

text \<open>The \<^verbatim>\<open>switch\<close> on \<open>c.Writer.Status()\<close> that ends both completion loggers.\<close>

definition log_by_status :: "Logger \<Rightarrow> int \<Rightarrow> Field list \<Rightarrow> Event" where
  "log_by_status logger status flds =
     (if status \<ge> 500 then emit logger Error ''Server error'' flds
      else if status \<ge> 400 then emit logger Warn ''Client error'' flds
      else if status \<ge> 300 then emit logger Info ''Redirection'' flds
      else emit logger Info ''Request completed'' flds)"

record GinLoggerConfig =
  gl_Logger :: "Logger option"
  gl_UTC :: bool
  gl_SkipPaths :: "string list"

definition GinLoggerWithConfig :: "GinLoggerConfig \<Rightarrow> HandlerFunc \<Rightarrow> HandlerFunc" where
  "GinLoggerWithConfig config next c =
     (let logger = (case gl_Logger config of None \<Rightarrow> GetLogger | Some l \<Rightarrow> l);
          skipPaths = make_skipPaths (gl_SkipPaths config)
      in if lookup_skip skipPaths (Path c) then next c
         else
           (let (start, c0) = time_Now c;
                path = Path c0;
                raw = RawQuery c0
            in case next c0 of
                 Panicked v c1 es \<Rightarrow> Panicked v c1 es
               | Returned c1 es \<Rightarrow>
                   (let (latency, c2) = time_Since start c1;
                        flds =
                          [zap_String ''method'' (Method c2),
                           zap_String ''path'' path,
                           zap_String ''ip'' (ClientIP c2),
                           zap_String ''user_agent'' (UserAgent c2),
                           zap_Int ''status'' (Status c2),
                           zap_Duration ''latency'' latency,
                           zap_Int ''body_size'' (Size c2),
                           zap_Time ''timestamp'' start (gl_UTC config)];
                        flds = flds @ (if raw \<noteq> [] then [zap_String ''query'' raw] else []);
                        flds = flds @ request_id_field c2;
                        flds = flds @ user_id_field c2
                    in Returned c2 (es @ [log_by_status logger (Status c2) flds]))))"

definition GinLogger :: "HandlerFunc \<Rightarrow> HandlerFunc" where
  "GinLogger = GinLoggerWithConfig \<lparr>gl_Logger = None, gl_UTC = False, gl_SkipPaths = []\<rparr>"

record StructuredLoggerConfig =
  sl_Logger :: "Logger option"
  sl_SkipPaths :: "string list"
  sl_SkipPathRegexps :: "(string \<Rightarrow> bool) list"
  sl_UTC :: bool
  sl_LogHeaders :: "string list"
  sl_LogRequestBody :: bool
  sl_LogResponseBody :: bool
  sl_MaxBodySize :: int
  sl_LogUserAgent :: bool
  sl_LogReferer :: bool
  sl_LogClientIP :: bool
  sl_CustomFields :: "(Context \<Rightarrow> Field list) option"

text \<open>
  A compiled \<open>*regexp.Regexp\<close> of the configuration is its \<open>MatchString\<close>, a predicate on
  paths. The custom-field callback reads the context and returns fields.
\<close>

text \<open>\<^verbatim>\<open>if config.MaxBodySize == 0 { config.MaxBodySize = 1024 * 1024 }\<close>\<close>

definition default_MaxBodySize :: "int \<Rightarrow> int" where
  "default_MaxBodySize m = (if m = 0 then 1024 * 1024 else m)"

text \<open>
  The capture of the request body (``Capture request body if needed''): the text captured
  and the context with the body restored, or with the drained stream when the read failed.
\<close>

definition capture_request_body :: "StructuredLoggerConfig \<Rightarrow> int \<Rightarrow> Context \<Rightarrow> string \<times> Context" where
  "capture_request_body config MaxBodySize c =
     (if sl_LogRequestBody config \<and> ReqBody c \<noteq> None \<and> ContentLength c \<le> MaxBodySize
      then (let ((bodyBytes, err), drained) = io_ReadAll (the (ReqBody c))
            in if err = None
               then (bodyBytes, c\<lparr>ReqBody := Some (NewBuffer bodyBytes)\<rparr>)
               else ([], c\<lparr>ReqBody := Some drained\<rparr>))
      else ([], c))"

text \<open>The fields of the completion event, from ``Build base fields'' to the custom fields.\<close>

definition structured_fields ::
  "StructuredLoggerConfig \<Rightarrow> nat \<Rightarrow> string \<Rightarrow> string \<Rightarrow> string \<Rightarrow> int \<Rightarrow> Context \<Rightarrow> Field list" where
  "structured_fields config start path raw requestBody latency c =
     (let flds =
            [zap_String ''method'' (Method c),
             zap_String ''path'' path,
             zap_Int ''status'' (Status c),
             zap_Duration ''latency'' latency,
             zap_Int ''body_size'' (Size c),
             zap_Time ''timestamp'' start (sl_UTC config)];
          flds = flds @ (if raw \<noteq> [] then [zap_String ''query'' raw] else []);
          flds = flds @ (if sl_LogClientIP config then [zap_String ''ip'' (ClientIP c)] else []);
          flds = flds @
            (if sl_LogUserAgent config then [zap_String ''user_agent'' (UserAgent c)] else []);
          flds = flds @
            (if sl_LogReferer config \<and> Referer c \<noteq> []
             then [zap_String ''referer'' (Referer c)] else []);
          flds = flds @
            concat (map (\<lambda>header.
                      if ReqHeader c header \<noteq> []
                      then [zap_String (''header_'' @ header) (ReqHeader c header)]
                      else [])
                    (sl_LogHeaders config));
          flds = flds @
            (if requestBody \<noteq> [] then [zap_String ''request_body'' requestBody] else []);
          flds = flds @ request_id_field c;
          flds = flds @ user_id_field c;
          flds = flds @ (case sl_CustomFields config of None \<Rightarrow> [] | Some f \<Rightarrow> f c)
      in flds)"

definition StructuredLogger :: "StructuredLoggerConfig \<Rightarrow> HandlerFunc \<Rightarrow> HandlerFunc" where
  "StructuredLogger config next c =
     (let logger = (case sl_Logger config of None \<Rightarrow> GetLogger | Some l \<Rightarrow> l);
          MaxBodySize = default_MaxBodySize (sl_MaxBodySize config);
          skipPaths = make_skipPaths (sl_SkipPaths config)
      in if lookup_skip skipPaths (Path c) then next c
         else if list_ex (\<lambda>regex. regex (Path c)) (sl_SkipPathRegexps config) then next c
         else
           (let (start, c0) = time_Now c;
                path = Path c0;
                raw = RawQuery c0;
                (requestBody, c1) = capture_request_body config MaxBodySize c0
            in case next c1 of
                 Panicked v c2 es \<Rightarrow> Panicked v c2 es
               | Returned c2 es \<Rightarrow>
                   (let (latency, c3) = time_Since start c2;
                        flds = structured_fields config start path raw requestBody latency c3
                    in Returned c3 (es @ [log_by_status logger (Status c3) flds]))))"

section \<open>RequestIDMiddleware\<close>

definition charset :: string where
  "charset = ''abcdefghijklmnopqrstuvwxyzABCDEFGHIJKLMNOPQRSTUVWXYZ0123456789''"

text \<open>Every byte of \<open>randomString\<close> takes its own reading of the clock.\<close>

fun randomString :: "nat \<Rightarrow> Context \<Rightarrow> string \<times> Context" where
  "randomString 0 c = ([], c)"
| "randomString (Suc n) c =
     (let (t, c1) = time_Now c;
          (s, c2) = randomString n c1
      in (charset ! (t mod length charset) # s, c2))"

text \<open>
  \<open>Format\<close> stands for \<^verbatim>\<open>Time.Format("20060102150405")\<close> of the standard library, taken
  as a parameter.
\<close>

definition generateRequestID :: "(nat \<Rightarrow> string) \<Rightarrow> Context \<Rightarrow> string \<times> Context" where
  "generateRequestID Format c =
     (let (t, c1) = time_Now c;
          (s, c2) = randomString 8 c1
      in (Format t @ ''-'' @ s, c2))"

definition RequestIDMiddleware :: "(nat \<Rightarrow> string) \<Rightarrow> HandlerFunc \<Rightarrow> HandlerFunc" where
  "RequestIDMiddleware Format next c =
     (let requestID = GetHeader c ''X-Request-ID'';
          (requestID, c0) =
            (if requestID = [] then generateRequestID Format c else (requestID, c));
          c1 = Set_key ''request_id'' (AnyString requestID) c0;
          c2 = Header ''X-Request-ID'' requestID c1
      in next c2)"

section \<open>RecoveryLogger\<close>



section \<open>RequestBodyLogger\<close>

record RequestBodyLoggerConfig =
  bl_MaxBodySize :: int
  bl_SkipPaths :: "string list"

definition RequestBodyLogger :: "RequestBodyLoggerConfig \<Rightarrow> HandlerFunc \<Rightarrow> HandlerFunc" where
  "RequestBodyLogger config next c =
     (let MaxBodySize = default_MaxBodySize (bl_MaxBodySize config);
          skipPaths = make_skipPaths (bl_SkipPaths config)
      in if lookup_skip skipPaths (Path c) then next c
         else
           (let (logged, c1) =
                  (if ReqBody c \<noteq> None \<and> ContentLength c \<le> MaxBodySize
                   then (let ((bodyBytes, err), drained) = io_ReadAll (the (ReqBody c))
                         in if err = None
                            then (let c0 = c\<lparr>ReqBody := Some (NewBuffer bodyBytes)\<rparr>;
                                      flds =
                                        [zap_String ''method'' (Method c0),
                                         zap_String ''path'' (Path c0),
                                         zap_String ''body'' bodyBytes];
                                      flds = flds @ request_id_field c0
                                  in ([emit GetLogger Debug ''Request body'' flds], c0))
                            else ([], c\<lparr>ReqBody := Some drained\<rparr>))
                   else ([], c))
            in before logged (next c1)))"

section \<open>PerformanceLogger\<close>

definition PerformanceLogger :: "HandlerFunc \<Rightarrow> HandlerFunc" where
  "PerformanceLogger next c =
     (let (start, c0) = time_Now c
      in case next c0 of
           Panicked v c1 es \<Rightarrow> Panicked v c1 es
         | Returned c1 es \<Rightarrow>
             (let (latency, c2) = time_Since start c1
              in if latency > Second
                 then (let flds =
                             [zap_String ''method'' (Method c2),
                              zap_String ''path'' (Path c2),
                              zap_Duration ''latency'' latency,
                              zap_Int ''status'' (Status c2)];
                           flds = flds @ request_id_field c2
                       in Returned c2 (es @ [emit GetLogger Warn ''Slow request detected'' flds]))
                 else Returned c2 es))"

section \<open>SecurityLogger\<close>

text \<open>
  The three patterns are alternations of literal words, searched anywhere in the path.
  Under \<^verbatim>\<open>(?i)\<close> a letter of the pattern matches its lower and upper case and the other
  runes of its case-folding orbit: for \<open>s\<close> the long s U+017F (bytes C5 BF in UTF-8), for
  \<open>k\<close> the Kelvin sign U+212A (bytes E2 84 AA). \<open>rune_step ci p s\<close> consumes from \<open>s\<close> one
  rune that the pattern byte \<open>p\<close> matches.
\<close>

definition upper :: "char \<Rightarrow> char" where
  "upper p =
     (case map_of (zip ''abcdefghijklmnopqrstuvwxyz'' ''ABCDEFGHIJKLMNOPQRSTUVWXYZ'') p of
        Some u \<Rightarrow> u
      | None \<Rightarrow> p)"

fun rune_step :: "bool \<Rightarrow> char \<Rightarrow> string \<Rightarrow> string option" where
  "rune_step ci p [] = None"
| "rune_step ci p (x # xs) =
     (if x = p then Some xs
      else if ci \<and> x = upper p then Some xs
      else if ci \<and> p = CHR ''s'' \<and> x = CHR 0xC5 \<and> take 1 xs = [CHR 0xBF] then Some (drop 1 xs)
      else if ci \<and> p = CHR ''k'' \<and> x = CHR 0xE2 \<and> take 2 xs = [CHR 0x84, CHR 0xAA]
        then Some (drop 2 xs)
      else None)"

fun match_here :: "bool \<Rightarrow> string \<Rightarrow> string \<Rightarrow> bool" where
  "match_here ci [] s = True"
| "match_here ci (p # ps) s =
     (case rune_step ci p s of None \<Rightarrow> False | Some rest \<Rightarrow> match_here ci ps rest)"

fun match_anywhere :: "bool \<Rightarrow> string \<Rightarrow> string \<Rightarrow> bool" where
  "match_anywhere ci w [] = match_here ci w []"
| "match_anywhere ci w (x # xs) = (match_here ci w (x # xs) \<or> match_anywhere ci w xs)"

text \<open>\<^verbatim>\<open>(?i)(union|select|insert|delete|drop|create|alter|exec|script)\<close>\<close>

definition match_sql :: "string \<Rightarrow> bool" where
  "match_sql path =
     list_ex (\<lambda>w. match_anywhere True w path)
       [''union'', ''select'', ''insert'', ''delete'', ''drop'', ''create'', ''alter'',
        ''exec'', ''script'']"

text \<open>\<^verbatim>\<open>(?i)(<script|javascript:|onload=|onerror=)\<close>\<close>

definition match_xss :: "string \<Rightarrow> bool" where
  "match_xss path =
     list_ex (\<lambda>w. match_anywhere True w path)
       [''<script'', ''javascript:'', ''onload='', ''onerror='']"

text \<open>\<^verbatim>\<open>\.\./\<close>\<close>

definition match_traversal :: "string \<Rightarrow> bool" where
  "match_traversal path = match_anywhere False ''../'' path"

definition SecurityLogger :: "HandlerFunc \<Rightarrow> HandlerFunc" where
  "SecurityLogger next c =
     (let userAgent = UserAgent c;
          path = Path c;
          suspicious = False;
          reason = [];
          (suspicious, reason) =
            (if match_sql path then (True, ''SQL injection attempt'') else (suspicious, reason));
          (suspicious, reason) =
            (if match_xss path then (True, ''XSS attempt'') else (suspicious, reason));
          (suspicious, reason) =
            (if match_traversal path then (True, ''Path traversal attempt'')
             else (suspicious, reason));
          logged =
            (if suspicious
             then (let flds =
                         [zap_String ''method'' (Method c),
                          zap_String ''path'' path,
                          zap_String ''ip'' (ClientIP c),
                          zap_String ''user_agent'' userAgent,
                          zap_String ''reason'' reason];
                       flds = flds @ request_id_field c
                   in [emit GetLogger Warn ''Suspicious request detected'' flds])
             else [])
      in before logged (next c))"

section \<open>The events the specification describes\<close>

text \<open>
  The security event of the specification: one warning-level event containing method,
  path, client address, user agent, matched reason, and the request identifier if present.
\<close>

definition suspicious_request_event :: "Context \<Rightarrow> string \<Rightarrow> Event" where
  "suspicious_request_event c reason =
     \<lparr>ev_level = Warn, ev_message = ''Suspicious request detected'',
      ev_fields =
        [(''method'', VString (Method c)), (''path'', VString (Path c)),
         (''ip'', VString (ClientIP c)), (''user_agent'', VString (ReqHeader c ''User-Agent'')),
         (''reason'', VString reason)]
        @ (case Keys c ''request_id'' of
             Some (AnyString rid) \<Rightarrow> if rid = [] then [] else [(''request_id'', VString rid)]
           | _ \<Rightarrow> [])\<rparr>"

text \<open>
  The event of the standalone body logger: the captured bytes rendered as text, at debug
  severity, with method, path and the request identifier if present.
\<close>

definition request_body_event :: "Context \<Rightarrow> string \<Rightarrow> Event" where
  "request_body_event c body =
     \<lparr>ev_level = Debug, ev_message = ''Request body'',
      ev_fields =
        [(''method'', VString (Method c)), (''path'', VString (Path c)),
         (''body'', VString body)]
        @ (case Keys c ''request_id'' of
             Some (AnyString rid) \<Rightarrow> if rid = [] then [] else [(''request_id'', VString rid)]
           | _ \<Rightarrow> [])\<rparr>"

section \<open>Example requests and handlers\<close>

text \<open>
  A bodiless \<open>GET\<close> as the server hands it to the chain (the body is a non-nil empty
  stream, the declared length 0), with a clock that advances one millisecond per reading,
  and the handlers of the example application: one that answers with a status, one that
  panics, one that takes \<open>d\<close> nanoseconds.
\<close>

definition example_request :: Context where
  "example_request =
     \<lparr>Method = ''GET'', Path = ''/api/users'', RawQuery = [], ReqHeader = (\<lambda>k. []),
      ReqBody = Some (Body [] EOF), ContentLength = 0, ClientIP = ''192.0.2.1'',
      Keys = Map.empty, RespHeader = Map.empty, Status = 200, Size = 0, Aborted = False,
      Clock = (\<lambda>i. 1000000 * i), Reads = 0\<rparr>"

definition answer :: "int \<Rightarrow> HandlerFunc" where
  "answer code c = Returned (c\<lparr>Status := code\<rparr>) []"


definition taking :: "nat \<Rightarrow> HandlerFunc" where
  "taking d c = Returned (c\<lparr>Clock := (\<lambda>i. Clock c i + d)\<rparr>) []"

text \<open>A \<open>POST\<close> with a nine-byte body, and the same request on a connection that breaks.\<close>

definition example_post :: Context where
  "example_post =
     example_request\<lparr>Method := ''POST'', Path := ''/users'',
       ReqBody := Some (Body ''name=John'' EOF), ContentLength := 9\<rparr>"

definition example_broken_post :: Context where
  "example_broken_post =
     example_post\<lparr>ReqBody := Some (Body ''name'' (ReadErr ''unexpected EOF''))\<rparr>"

text \<open>The configurations of the example application and of the README.\<close>

definition example_gin_config :: GinLoggerConfig where
  "example_gin_config = \<lparr>gl_Logger = None, gl_UTC = True, gl_SkipPaths = [''/health'', ''/metrics'']\<rparr>"

definition example_structured_config :: StructuredLoggerConfig where
  "example_structured_config =
     \<lparr>sl_Logger = None, sl_SkipPaths = [''/health'', ''/metrics''], sl_SkipPathRegexps = [],
      sl_UTC = False, sl_LogHeaders = [''Authorization'', ''Content-Type'', ''X-API-Key''],
      sl_LogRequestBody = True, sl_LogResponseBody = False, sl_MaxBodySize = 1024 * 1024,
      sl_LogUserAgent = True, sl_LogReferer = True, sl_LogClientIP = True,
      sl_CustomFields =
        Some (\<lambda>c. [zap_String ''service'' ''gin-example'', zap_String ''version'' ''1.0.0''])\<rparr>"

definition example_body_config :: RequestBodyLoggerConfig where
  "example_body_config = \<lparr>bl_MaxBodySize = 1024 * 1024, bl_SkipPaths = [''/health'']\<rparr>"

section \<open>Auxiliary lemmas\<close>

subsection \<open>Exclusion map and severity switch\<close>

lemma lookup_skip_foldl:
  "lookup_skip (foldl (\<lambda>m path. m(path \<mapsto> True)) m0 ps) p
     = (p \<in> set ps \<or> lookup_skip m0 p)"
  by (induction ps arbitrary: m0) (auto simp: lookup_skip_def)

lemma lookup_skip_make: "lookup_skip (make_skipPaths ps) p = (p \<in> set ps)"
  by (simp add: make_skipPaths_def lookup_skip_foldl) (simp add: lookup_skip_def)

lemma log_by_status_level:
  "ev_level (log_by_status lg s fs) = (if s \<ge> 500 then Error else if s \<ge> 400 then Warn else Info)"
  by (simp add: log_by_status_def emit_def)

lemma log_by_status_fields: "ev_fields (log_by_status lg s fs) = bound lg @ fs"
  by (simp add: log_by_status_def emit_def)

lemma before_Nil: "before [] r = r"
  by (cases r) simp_all

subsection \<open>The completion loggers once the path is not excluded\<close>

lemma GinLoggerWithConfig_run:
  assumes "Path c \<notin> set (gl_SkipPaths config)"
  shows "GinLoggerWithConfig config next c =
     (case next (snd (time_Now c)) of
        Panicked v c1 es \<Rightarrow> Panicked v c1 es
      | Returned c1 es \<Rightarrow>
          Returned (snd (time_Now c1))
            (es @ [log_by_status (case gl_Logger config of None \<Rightarrow> GetLogger | Some l \<Rightarrow> l)
                     (Status c1)
                     ([zap_String ''method'' (Method c1),
                       zap_String ''path'' (Path c),
                       zap_String ''ip'' (ClientIP c1),
                       zap_String ''user_agent'' (UserAgent c1),
                       zap_Int ''status'' (Status c1),
                       zap_Duration ''latency'' (int (fst (time_Now c1)) - int (fst (time_Now c))),
                       zap_Int ''body_size'' (Size c1),
                       zap_Time ''timestamp'' (fst (time_Now c)) (gl_UTC config)]
                      @ (if RawQuery c \<noteq> [] then [zap_String ''query'' (RawQuery c)] else [])
                      @ request_id_field c1 @ user_id_field c1)]))"
  using assms
  by (simp add: GinLoggerWithConfig_def lookup_skip_make Let_def time_Since_def time_Now_def
      request_id_field_def user_id_field_def GetString_def UserAgent_def
      split: Result.splits prod.splits)

lemma StructuredLogger_run:
  assumes "Path c \<notin> set (sl_SkipPaths config)"
      and "\<not> list_ex (\<lambda>regex. regex (Path c)) (sl_SkipPathRegexps config)"
  shows "StructuredLogger config next c =
     (case next (snd (capture_request_body config (default_MaxBodySize (sl_MaxBodySize config))
                       (snd (time_Now c)))) of
        Panicked v c2 es \<Rightarrow> Panicked v c2 es
      | Returned c2 es \<Rightarrow>
          Returned (snd (time_Now c2))
            (es @ [log_by_status (case sl_Logger config of None \<Rightarrow> GetLogger | Some l \<Rightarrow> l)
                     (Status c2)
                     (structured_fields config (fst (time_Now c)) (Path c) (RawQuery c)
                        (fst (capture_request_body config (default_MaxBodySize (sl_MaxBodySize config))
                               (snd (time_Now c))))
                        (int (fst (time_Now c2)) - int (fst (time_Now c)))
                        (snd (time_Now c2)))]))"
  using assms
  by (simp add: StructuredLogger_def lookup_skip_make Let_def time_Since_def time_Now_def
      split: Result.splits prod.splits)

subsection \<open>Generated identifiers\<close>

lemma length_charset: "length charset = 62"
  by (simp add: charset_def)

lemma randomString_shape:
  "length (fst (randomString n c)) = n \<and> set (fst (randomString n c)) \<subseteq> set charset"
proof (induction n arbitrary: c)
  case 0
  show ?case by simp
next
  case (Suc n)
  obtain t c1 where now: "time_Now c = (t, c1)" by (cases "time_Now c")
  obtain s c2 where rest: "randomString n c1 = (s, c2)" by (cases "randomString n c1")
  have "charset ! (t mod length charset) \<in> set charset"
    by (rule nth_mem) (simp add: length_charset)
  with Suc [of c1] now rest show ?case by simp
qed

subsection \<open>Pattern matching\<close>

text \<open>
  A path that contains a word literally is matched by it, with or without case folding;
  without case folding the converse holds too.
\<close>

lemma match_here_self: "match_here ci w (w @ rest)"
  by (induction w) simp_all

lemma match_anywhere_here: "match_here ci w s \<Longrightarrow> match_anywhere ci w s"
  by (cases s) simp_all

lemma match_anywhere_suffix: "match_anywhere ci w s \<Longrightarrow> match_anywhere ci w (pre @ s)"
  by (induction pre) simp_all

lemma match_anywhere_contains: "match_anywhere ci w (pre @ w @ post)"
  by (intro match_anywhere_suffix match_anywhere_here match_here_self)

lemma rune_step_literal: "rune_step False p s = Some rest \<Longrightarrow> s = p # rest"
  by (cases s) (simp_all split: if_splits)

lemma match_here_literal: "match_here False w s \<Longrightarrow> \<exists>post. s = w @ post"
proof (induction w arbitrary: s)
  case Nil
  show ?case by simp
next
  case (Cons p ps)
  then obtain rest where "rune_step False p s = Some rest" and "match_here False ps rest"
    by (auto split: option.splits)
  with Cons.IH [of rest] show ?case
    by (auto dest: rune_step_literal)
qed

lemma match_anywhere_literal:
  "match_anywhere False w s \<Longrightarrow> \<exists>pre post. s = pre @ w @ post"
proof (induction s)
  case Nil
  then show ?case by (auto dest: match_here_literal)
next
  case (Cons x xs)
  then consider "match_here False w (x # xs)" | "match_anywhere False w xs" by auto
  then show ?case
  proof cases
    case 1
    then obtain post where "x # xs = w @ post" by (auto dest: match_here_literal)
    then have "x # xs = [] @ w @ post" by simp
    then show ?thesis by blast
  next
    case 2
    with Cons.IH obtain pre post where "xs = pre @ w @ post" by blast
    then have "x # xs = (x # pre) @ w @ post" by simp
    then show ?thesis by blast
  qed
qed

lemma match_traversal_iff:
  "match_traversal path \<longleftrightarrow> (\<exists>pre post. path = pre @ ''../'' @ post)"
  unfolding match_traversal_def
  by (metis match_anywhere_literal match_anywhere_contains)

lemma match_xss_script: "match_xss (pre @ ''<script'' @ post)"
  unfolding match_xss_def list_ex_iff using match_anywhere_contains [of True "''<script''" pre post] by simp

lemma upper_simps:
  "upper CHR ''a'' = CHR ''A''" "upper CHR ''c'' = CHR ''C''" "upper CHR ''d'' = CHR ''D''"
  "upper CHR ''e'' = CHR ''E''" "upper CHR ''i'' = CHR ''I''" "upper CHR ''j'' = CHR ''J''"
  "upper CHR ''l'' = CHR ''L''" "upper CHR ''n'' = CHR ''N''" "upper CHR ''o'' = CHR ''O''"
  "upper CHR ''p'' = CHR ''P''" "upper CHR ''r'' = CHR ''R''" "upper CHR ''s'' = CHR ''S''"
  "upper CHR ''t'' = CHR ''T''" "upper CHR ''u'' = CHR ''U''" "upper CHR ''v'' = CHR ''V''"
  "upper CHR ''x'' = CHR ''X''" "upper CHR ''<'' = CHR ''<''" "upper CHR '':'' = CHR '':''"
  "upper CHR ''='' = CHR ''=''"
  by (simp_all add: upper_def)

lemma example_path_matches:
  "match_sql ''/api/users?id=1' UNION SELECT * FROM users--''"
  "\<not> match_xss ''/api/users?id=1' UNION SELECT * FROM users--''"
  "\<not> match_traversal ''/api/users?id=1' UNION SELECT * FROM users--''"
  by (simp_all add: match_sql_def match_xss_def match_traversal_def upper_simps)

lemma SecurityLogger_run:
  "SecurityLogger next c =
     before (if match_traversal (Path c) then [suspicious_request_event c ''Path traversal attempt'']
             else if match_xss (Path c) then [suspicious_request_event c ''XSS attempt'']
             else if match_sql (Path c) then [suspicious_request_event c ''SQL injection attempt'']
             else [])
       (next c)"
  by (simp add: SecurityLogger_def Let_def emit_def GetLogger_def zap_String_def UserAgent_def
      request_id_field_def suspicious_request_event_def GetString_def
      split: option.splits Any.splits)

subsection \<open>Body capture\<close>

lemma capture_restored:
  assumes "sl_LogRequestBody config" and "ReqBody c = Some (Body bs EOF)"
    and "ContentLength c \<le> m"
  shows "capture_request_body config m c = (bs, c)"
proof -
  have "c\<lparr>ReqBody := Some (Body bs EOF)\<rparr> = c"
    using assms(2) by simp
  with assms show ?thesis
    by (simp add: capture_request_body_def io_ReadAll_def NewBuffer_def)
qed

lemma capture_failed:
  assumes "sl_LogRequestBody config" and "ReqBody c = Some (Body bs (ReadErr err))"
    and "ContentLength c \<le> m"
  shows "capture_request_body config m c = ([], c\<lparr>ReqBody := Some (Body [] (ReadErr err))\<rparr>)"
  using assms by (simp add: capture_request_body_def io_ReadAll_def)



lemma structured_fields_custom:
  "structured_fields config start path raw requestBody latency c =
     structured_fields (config\<lparr>sl_CustomFields := None\<rparr>) start path raw requestBody latency c
     @ (case sl_CustomFields config of None \<Rightarrow> [] | Some f \<Rightarrow> f c)"
  by (simp add: structured_fields_def Let_def)

lemma structured_fields_body_key:
  "''request_body'' \<in> fst ` set (structured_fields (config\<lparr>sl_CustomFields := None\<rparr>)
        start path raw requestBody latency c) \<longleftrightarrow> requestBody \<noteq> []"
  by (auto simp: structured_fields_def Let_def zap_String_def zap_Int_def zap_Duration_def
      zap_Time_def request_id_field_def user_id_field_def split: if_splits)

lemma structured_fields_body_value:
  "requestBody \<noteq> [] \<Longrightarrow>
     (''request_body'', VString requestBody)
       \<in> set (structured_fields config start path raw requestBody latency c)"
  by (simp add: structured_fields_def Let_def zap_String_def)

lemma StructuredLogger_event:
  assumes "Path c \<notin> set (sl_SkipPaths config)"
    and "\<not> (\<exists>regex \<in> set (sl_SkipPathRegexps config). regex (Path c))"
    and "capture_request_body config (default_MaxBodySize (sl_MaxBodySize config))
           (c\<lparr>Reads := Suc (Reads c)\<rparr>) = (requestBody, c1)"
    and "next c1 = Returned c2 es"
  shows "\<exists>e c3 own.
           StructuredLogger config next c = Returned c3 (es @ [e])
           \<and> ev_fields e =
               bound (case sl_Logger config of None \<Rightarrow> GetLogger | Some l \<Rightarrow> l) @ own
               @ (case sl_CustomFields config of None \<Rightarrow> [] | Some f \<Rightarrow> f c3)
           \<and> (''request_body'' \<in> fst ` set own \<longleftrightarrow> requestBody \<noteq> [])
           \<and> (requestBody \<noteq> [] \<longrightarrow> (''request_body'', VString requestBody) \<in> set (ev_fields e))"
proof -
  have skip: "\<not> list_ex (\<lambda>regex. regex (Path c)) (sl_SkipPathRegexps config)"
    using assms(2) by (simp add: list_ex_iff)
  let ?c3 = "c2\<lparr>Reads := Suc (Reads c2)\<rparr>"
  let ?lat = "int (Clock c2 (Reads c2)) - int (Clock c (Reads c))"
  let ?own = "structured_fields (config\<lparr>sl_CustomFields := None\<rparr>) (Clock c (Reads c)) (Path c)
                (RawQuery c) requestBody ?lat ?c3"
  let ?e = "log_by_status (case sl_Logger config of None \<Rightarrow> GetLogger | Some l \<Rightarrow> l) (Status c2)
              (structured_fields config (Clock c (Reads c)) (Path c) (RawQuery c) requestBody
                 ?lat ?c3)"
  have run: "StructuredLogger config next c = Returned ?c3 (es @ [?e])"
    using assms(3,4) by (simp add: StructuredLogger_run [OF assms(1) skip] time_Now_def)
  have flds: "ev_fields ?e =
      bound (case sl_Logger config of None \<Rightarrow> GetLogger | Some l \<Rightarrow> l) @ ?own
      @ (case sl_CustomFields config of None \<Rightarrow> [] | Some f \<Rightarrow> f ?c3)"
    by (simp add: log_by_status_fields structured_fields_custom [symmetric])
  have val: "requestBody \<noteq> [] \<longrightarrow> (''request_body'', VString requestBody) \<in> set (ev_fields ?e)"
    using structured_fields_body_value
    by (simp add: log_by_status_fields)
  from run flds val structured_fields_body_key show ?thesis
    by blast
qed

lemma RequestBodyLogger_restored:
  assumes "Path c \<notin> set (bl_SkipPaths config)" and "ReqBody c = Some (Body bs EOF)"
    and "ContentLength c \<le> default_MaxBodySize (bl_MaxBodySize config)"
  shows "RequestBodyLogger config next c = before [request_body_event c bs] (next c)"
proof -
  have same: "c\<lparr>ReqBody := Some (Body bs EOF)\<rparr> = c"
    using assms(2) by simp
  show ?thesis
    using assms
    by (simp add: RequestBodyLogger_def lookup_skip_make Let_def io_ReadAll_def NewBuffer_def
        same request_id_field_def GetString_def emit_def GetLogger_def zap_String_def
        request_body_event_def split: option.splits Any.splits)
qed

lemma RequestBodyLogger_failed:
  assumes "Path c \<notin> set (bl_SkipPaths config)" and "ReqBody c = Some (Body bs (ReadErr err))"
    and "ContentLength c \<le> default_MaxBodySize (bl_MaxBodySize config)"
  shows "RequestBodyLogger config next c = next (c\<lparr>ReqBody := Some (Body [] (ReadErr err))\<rparr>)"
  using assms
  by (simp add: RequestBodyLogger_def lookup_skip_make Let_def io_ReadAll_def before_Nil)

lemma RequestBodyLogger_not_captured:
  assumes "Path c \<notin> set (bl_SkipPaths config)"
    and "ReqBody c = None \<or> default_MaxBodySize (bl_MaxBodySize config) < ContentLength c"
  shows "RequestBodyLogger config next c = next c"
  using assms
  by (auto simp: RequestBodyLogger_def lookup_skip_make Let_def before_Nil)


lemma default_MaxBodySize_nonneg: "0 \<le> m \<Longrightarrow> 0 \<le> default_MaxBodySize m"
  by (simp add: default_MaxBodySize_def)

section \<open>The claims\<close>

text \<open>
  C1. For every completed, non-excluded request with final status \<open>s\<close>, both completion
  loggers (\<open>GinLoggerWithConfig\<close> and \<open>StructuredLogger\<close>) add exactly one event to
  those of the chain, at severity error if and only if \<open>s \<ge> 500\<close>, at warning if and only
  if \<open>400 \<le> s < 500\<close>, and at info otherwise. The chain runs on the context left by the
  logger's clock reading (and, for the structured logger, by its body capture); \<open>c2\<close> is
  the context it returns and \<open>es\<close> are its events.
\<close>

theorem completion_severity:
  "(Path c \<notin> set (gl_SkipPaths gcfg)
      \<and> next (c\<lparr>Reads := Suc (Reads c)\<rparr>) = Returned c2 es \<longrightarrow>
      (\<exists>e c3. GinLoggerWithConfig gcfg next c = Returned c3 (es @ [e])
         \<and> Status c3 = Status c2
         \<and> (ev_level e = Error \<longleftrightarrow> Status c2 \<ge> 500)
         \<and> (ev_level e = Warn \<longleftrightarrow> 400 \<le> Status c2 \<and> Status c2 < 500)
         \<and> (ev_level e = Info \<longleftrightarrow> Status c2 < 400)))
   \<and> (Path c \<notin> set (sl_SkipPaths scfg)
      \<and> \<not> (\<exists>regex \<in> set (sl_SkipPathRegexps scfg). regex (Path c))
      \<and> next (snd (capture_request_body scfg (default_MaxBodySize (sl_MaxBodySize scfg))
                     (c\<lparr>Reads := Suc (Reads c)\<rparr>))) = Returned c2 es \<longrightarrow>
      (\<exists>e c3. StructuredLogger scfg next c = Returned c3 (es @ [e])
         \<and> Status c3 = Status c2
         \<and> (ev_level e = Error \<longleftrightarrow> Status c2 \<ge> 500)
         \<and> (ev_level e = Warn \<longleftrightarrow> 400 \<le> Status c2 \<and> Status c2 < 500)
         \<and> (ev_level e = Info \<longleftrightarrow> Status c2 < 400)))"
proof (intro conjI impI)
  assume "Path c \<notin> set (gl_SkipPaths gcfg)
      \<and> next (c\<lparr>Reads := Suc (Reads c)\<rparr>) = Returned c2 es"
  then show "\<exists>e c3. GinLoggerWithConfig gcfg next c = Returned c3 (es @ [e])
         \<and> Status c3 = Status c2
         \<and> (ev_level e = Error \<longleftrightarrow> Status c2 \<ge> 500)
         \<and> (ev_level e = Warn \<longleftrightarrow> 400 \<le> Status c2 \<and> Status c2 < 500)
         \<and> (ev_level e = Info \<longleftrightarrow> Status c2 < 400)"
    by (simp add: GinLoggerWithConfig_run log_by_status_level time_Now_def)
next
  assume h: "Path c \<notin> set (sl_SkipPaths scfg)
      \<and> \<not> (\<exists>regex \<in> set (sl_SkipPathRegexps scfg). regex (Path c))
      \<and> next (snd (capture_request_body scfg (default_MaxBodySize (sl_MaxBodySize scfg))
                     (c\<lparr>Reads := Suc (Reads c)\<rparr>))) = Returned c2 es"
  then have "Path c \<notin> set (sl_SkipPaths scfg)"
    and "\<not> list_ex (\<lambda>regex. regex (Path c)) (sl_SkipPathRegexps scfg)"
    by (auto simp: list_ex_iff)
  note run = StructuredLogger_run [OF this]
  from h show "\<exists>e c3. StructuredLogger scfg next c = Returned c3 (es @ [e])
         \<and> Status c3 = Status c2
         \<and> (ev_level e = Error \<longleftrightarrow> Status c2 \<ge> 500)
         \<and> (ev_level e = Warn \<longleftrightarrow> 400 \<le> Status c2 \<and> Status c2 < 500)
         \<and> (ev_level e = Info \<longleftrightarrow> Status c2 < 400)"
    by (simp add: run log_by_status_level time_Now_def)
qed

text \<open>
  The example application's configurations on a request that the handler answers with 503.
\<close>

theorem completion_severity_witness:
  "Path example_request \<notin> set (gl_SkipPaths example_gin_config)
   \<and> Path example_request \<notin> set (sl_SkipPaths example_structured_config)
   \<and> \<not> (\<exists>regex \<in> set (sl_SkipPathRegexps example_structured_config). regex (Path example_request))
   \<and> (\<exists>c3 e. GinLoggerWithConfig example_gin_config (answer 503) example_request
                 = Returned c3 [e] \<and> Status c3 = 503 \<and> ev_level e = Error)
   \<and> (\<exists>c3 e. StructuredLogger example_structured_config (answer 503) example_request
                 = Returned c3 [e] \<and> Status c3 = 503 \<and> ev_level e = Error)"
proof -
  have g: "Path example_request \<notin> set (gl_SkipPaths example_gin_config)"
    by (simp add: example_request_def example_gin_config_def)
  have s: "Path example_request \<notin> set (sl_SkipPaths example_structured_config)
      \<and> \<not> (\<exists>regex \<in> set (sl_SkipPathRegexps example_structured_config).
              regex (Path example_request))"
    by (simp add: example_request_def example_structured_config_def)
  obtain c1 where c1: "c1 = snd (capture_request_body example_structured_config
      (default_MaxBodySize (sl_MaxBodySize example_structured_config))
      (example_request\<lparr>Reads := Suc (Reads example_request)\<rparr>))"
    by simp
  have ag: "answer 503 (example_request\<lparr>Reads := Suc (Reads example_request)\<rparr>)
      = Returned (example_request\<lparr>Reads := Suc (Reads example_request), Status := 503\<rparr>) []"
    by (simp add: answer_def)
  have as: "answer 503 c1 = Returned (c1\<lparr>Status := 503\<rparr>) []"
    by (simp add: answer_def)
  from completion_severity [of example_request example_gin_config "answer 503"
      "example_request\<lparr>Reads := Suc (Reads example_request), Status := 503\<rparr>" "[]"
      example_structured_config] g ag
  have 1: "\<exists>c3 e. GinLoggerWithConfig example_gin_config (answer 503) example_request
      = Returned c3 [e] \<and> Status c3 = 503 \<and> ev_level e = Error"
    by auto
  from completion_severity [of example_request example_gin_config "answer 503"
      "c1\<lparr>Status := 503\<rparr>" "[]" example_structured_config] s as c1
  have 2: "\<exists>c3 e. StructuredLogger example_structured_config (answer 503) example_request
      = Returned c3 [e] \<and> Status c3 = 503 \<and> ev_level e = Error"
    by auto
  from g s 1 2 show ?thesis by blast
qed

text \<open>
  C2. For every request, \<open>RequestIDMiddleware\<close> hands the chain a context in which the
  response header \<open>X-Request-ID\<close> and the context key \<open>request_id\<close> hold one and the
  same non-empty identifier: the inbound \<open>X-Request-ID\<close> header when that is present and
  non-empty, and otherwise a newly generated one (the formatted time, a dash and eight
  characters of the charset).
\<close>

theorem request_id_assigned:
  "\<exists>rid c1.
     (\<forall>next. RequestIDMiddleware Format next c = next c1)
     \<and> rid \<noteq> []
     \<and> RespHeader c1 ''X-Request-ID'' = Some rid
     \<and> Keys c1 ''request_id'' = Some (AnyString rid)
     \<and> GetString c1 ''request_id'' = rid
     \<and> (GetHeader c ''X-Request-ID'' \<noteq> [] \<longrightarrow> rid = GetHeader c ''X-Request-ID'')
     \<and> (GetHeader c ''X-Request-ID'' = [] \<longrightarrow>
          rid = fst (generateRequestID Format c)
          \<and> (\<exists>s. rid = Format (Clock c (Reads c)) @ ''-'' @ s
                 \<and> length s = 8 \<and> set s \<subseteq> set charset))"
proof (cases "GetHeader c ''X-Request-ID'' = []")
  case True
  obtain s c2 where rs: "randomString 8 (snd (time_Now c)) = (s, c2)"
    by (cases "randomString 8 (snd (time_Now c))")
  have shape: "length s = 8 \<and> set s \<subseteq> set charset"
    using randomString_shape [of 8 "snd (time_Now c)"] rs by simp
  have gen: "generateRequestID Format c = (Format (Clock c (Reads c)) @ ''-'' @ s, c2)"
    using rs by (simp add: generateRequestID_def time_Now_def)
  show ?thesis
    apply (rule exI [where x = "Format (Clock c (Reads c)) @ ''-'' @ s"])
    apply (rule exI [where x = "Header ''X-Request-ID'' (Format (Clock c (Reads c)) @ ''-'' @ s)
              (Set_key ''request_id'' (AnyString (Format (Clock c (Reads c)) @ ''-'' @ s)) c2)"])
    using True gen shape
    apply (simp add: RequestIDMiddleware_def Header_def Set_key_def GetString_def Let_def)
    done
next
  case False
  show ?thesis
    apply (rule exI [where x = "GetHeader c ''X-Request-ID''"])
    apply (rule exI [where x = "Header ''X-Request-ID'' (GetHeader c ''X-Request-ID'')
              (Set_key ''request_id'' (AnyString (GetHeader c ''X-Request-ID'')) c)"])
    using False
    apply (simp add: RequestIDMiddleware_def Header_def Set_key_def GetString_def Let_def)
    done
qed

text \<open>
  A request that carries the header, and one that does not.
\<close>

theorem request_id_assigned_witness:
  "GetHeader (example_request\<lparr>ReqHeader := (\<lambda>k. if k = ''X-Request-ID'' then ''abc-123'' else [])\<rparr>)
      ''X-Request-ID'' \<noteq> []
   \<and> RespHeader (ctx_of (RequestIDMiddleware (\<lambda>t. ''20060102150405'') (answer 200)
        (example_request\<lparr>ReqHeader := (\<lambda>k. if k = ''X-Request-ID'' then ''abc-123'' else [])\<rparr>)))
        ''X-Request-ID'' = Some ''abc-123''
   \<and> GetHeader example_request ''X-Request-ID'' = []
   \<and> (\<exists>s. RespHeader (ctx_of (RequestIDMiddleware (\<lambda>t. ''20060102150405'') (answer 200)
              example_request)) ''X-Request-ID'' = Some (''20060102150405-'' @ s)
          \<and> length s = 8)"
proof -
  let ?fmt = "\<lambda>t::nat. ''20060102150405''"
  let ?req = "example_request\<lparr>ReqHeader := (\<lambda>k. if k = ''X-Request-ID'' then ''abc-123'' else [])\<rparr>"
  have present: "GetHeader ?req ''X-Request-ID'' = ''abc-123''"
    by (simp add: GetHeader_def)
  have absent: "GetHeader example_request ''X-Request-ID'' = []"
    by (simp add: GetHeader_def example_request_def)
  from request_id_assigned [of ?fmt ?req]
  obtain rid1 c1 where
    run1: "\<forall>next. RequestIDMiddleware ?fmt next ?req = next c1"
    and hdr1: "RespHeader c1 ''X-Request-ID'' = Some rid1"
    and eq1: "GetHeader ?req ''X-Request-ID'' \<noteq> [] \<longrightarrow> rid1 = GetHeader ?req ''X-Request-ID''"
    by (elim exE conjE) (rule that)
  from request_id_assigned [of ?fmt example_request]
  obtain rid2 c2 where
    run2: "\<forall>next. RequestIDMiddleware ?fmt next example_request = next c2"
    and hdr2: "RespHeader c2 ''X-Request-ID'' = Some rid2"
    and eq2: "GetHeader example_request ''X-Request-ID'' = [] \<longrightarrow>
          rid2 = fst (generateRequestID ?fmt example_request)
          \<and> (\<exists>s. rid2 = ?fmt (Clock example_request (Reads example_request)) @ ''-'' @ s
                 \<and> length s = 8 \<and> set s \<subseteq> set charset)"
    by (elim exE conjE) (rule that)
  from eq2 absent obtain s where shape: "rid2 = ''20060102150405-'' @ s" and len: "length s = 8"
    by auto
  have a: "RespHeader (ctx_of (RequestIDMiddleware ?fmt (answer 200) ?req)) ''X-Request-ID''
      = Some ''abc-123''"
    using run1 hdr1 eq1 present by (simp add: answer_def)
  have b: "RespHeader (ctx_of (RequestIDMiddleware ?fmt (answer 200) example_request))
      ''X-Request-ID'' = Some (''20060102150405-'' @ s)"
    using run2 hdr2 shape by (simp add: answer_def)
  from present absent a b len show ?thesis
    by auto
qed

text \<open>
  C3, as the code has it. \<open>SecurityLogger\<close> tests the SQL-injection pattern, then the XSS
  pattern, then the path-traversal pattern, and a later match overwrites the reason of an
  earlier one. So the path \<^verbatim>\<open>/api/users?id=1' UNION SELECT * FROM users--\<close> gives one
  warning event with reason ``SQL injection attempt''; a path containing \<^verbatim>\<open><script\<close>
  and no \<^verbatim>\<open>../\<close> gives ``XSS attempt''; a path containing \<^verbatim>\<open>../\<close> gives
  ``Path traversal attempt''; a path that no pattern matches gives no event. In every case
  the chain runs on the unchanged context and its outcome is kept: the request is never
  blocked.
\<close>

theorem security_reason_reported:
  "\<exists>logged.
     (\<forall>next. SecurityLogger next c = before logged (next c))
     \<and> (Path c = ''/api/users?id=1' UNION SELECT * FROM users--'' \<longrightarrow>
          logged = [suspicious_request_event c ''SQL injection attempt''])
     \<and> ((\<exists>pre post. Path c = pre @ ''<script'' @ post)
          \<and> \<not> (\<exists>pre post. Path c = pre @ ''../'' @ post) \<longrightarrow>
          logged = [suspicious_request_event c ''XSS attempt''])
     \<and> ((\<exists>pre post. Path c = pre @ ''../'' @ post) \<longrightarrow>
          logged = [suspicious_request_event c ''Path traversal attempt''])
     \<and> (\<not> match_sql (Path c) \<and> \<not> match_xss (Path c) \<and> \<not> match_traversal (Path c) \<longrightarrow>
          logged = [] \<and> (\<forall>next. SecurityLogger next c = next c))
     \<and> (match_traversal (Path c) \<longrightarrow>
          logged = [suspicious_request_event c ''Path traversal attempt''])
     \<and> (match_xss (Path c) \<and> \<not> match_traversal (Path c) \<longrightarrow>
          logged = [suspicious_request_event c ''XSS attempt''])
     \<and> (match_sql (Path c) \<and> \<not> match_xss (Path c) \<and> \<not> match_traversal (Path c) \<longrightarrow>
          logged = [suspicious_request_event c ''SQL injection attempt''])"
proof -
  let ?logged =
    "if match_traversal (Path c) then [suspicious_request_event c ''Path traversal attempt'']
     else if match_xss (Path c) then [suspicious_request_event c ''XSS attempt'']
     else if match_sql (Path c) then [suspicious_request_event c ''SQL injection attempt'']
     else []"
  have script: "(\<exists>pre post. Path c = pre @ ''<script'' @ post) \<Longrightarrow> match_xss (Path c)"
    using match_xss_script by metis
  show ?thesis
    apply (rule exI [where x = ?logged])
    apply (intro conjI allI impI)
           apply (rule SecurityLogger_run)
          apply (simp add: example_path_matches)
         apply (simp add: script match_traversal_iff)
        apply (simp add: match_traversal_iff)
       apply simp
      apply (simp add: SecurityLogger_run before_Nil)
     apply simp_all
    done
qed

text \<open>
  The four kinds of path, each on the example request.
\<close>

theorem security_reason_reported_witness:
  "events (SecurityLogger (answer 200)
      (example_request\<lparr>Path := ''/api/users?id=1' UNION SELECT * FROM users--''\<rparr>))
     = [suspicious_request_event
          (example_request\<lparr>Path := ''/api/users?id=1' UNION SELECT * FROM users--''\<rparr>)
          ''SQL injection attempt'']
   \<and> events (SecurityLogger (answer 200) (example_request\<lparr>Path := ''/search/<script>alert(1)''\<rparr>))
     = [suspicious_request_event (example_request\<lparr>Path := ''/search/<script>alert(1)''\<rparr>)
          ''XSS attempt'']
   \<and> events (SecurityLogger (answer 200) (example_request\<lparr>Path := ''/static/../../etc/passwd''\<rparr>))
     = [suspicious_request_event (example_request\<lparr>Path := ''/static/../../etc/passwd''\<rparr>)
          ''Path traversal attempt'']
   \<and> SecurityLogger (answer 200) example_request = answer 200 example_request"
proof -
  let ?sql = "example_request\<lparr>Path := ''/api/users?id=1' UNION SELECT * FROM users--''\<rparr>"
  let ?xss = "example_request\<lparr>Path := ''/search/<script>alert(1)''\<rparr>"
  let ?trav = "example_request\<lparr>Path := ''/static/../../etc/passwd''\<rparr>"
  have ev: "events (before logged (answer 200 c)) = logged" for logged c
    by (simp add: answer_def)
  from security_reason_reported [of ?sql]
  obtain l1 where r1: "\<forall>next. SecurityLogger next ?sql = before l1 (next ?sql)"
    and e1: "Path ?sql = ''/api/users?id=1' UNION SELECT * FROM users--'' \<longrightarrow>
          l1 = [suspicious_request_event ?sql ''SQL injection attempt'']"
    by (elim exE conjE) (rule that)
  have 1: "events (SecurityLogger (answer 200) ?sql)
      = [suspicious_request_event ?sql ''SQL injection attempt'']"
    using r1 e1 by (simp add: ev)
  have script: "\<exists>pre post. Path ?xss = pre @ ''<script'' @ post"
    by (intro exI [where x = "''/search/''"] exI [where x = "''>alert(1)''"]) simp
  have "\<not> match_traversal (Path ?xss)"
    by (simp add: match_traversal_def)
  then have notrav: "\<not> (\<exists>pre post. Path ?xss = pre @ ''../'' @ post)"
    by (simp only: match_traversal_iff simp_thms)
  from security_reason_reported [of ?xss]
  obtain l2 where r2: "\<forall>next. SecurityLogger next ?xss = before l2 (next ?xss)"
    and e2: "(\<exists>pre post. Path ?xss = pre @ ''<script'' @ post)
          \<and> \<not> (\<exists>pre post. Path ?xss = pre @ ''../'' @ post) \<longrightarrow>
          l2 = [suspicious_request_event ?xss ''XSS attempt'']"
    by (elim exE conjE) (rule that)
  have 2: "events (SecurityLogger (answer 200) ?xss)
      = [suspicious_request_event ?xss ''XSS attempt'']"
    using r2 e2 script notrav by (simp only: ev simp_thms)
  have dots: "\<exists>pre post. Path ?trav = pre @ ''../'' @ post"
    by (intro exI [where x = "''/static/''"] exI [where x = "''../etc/passwd''"]) simp
  from security_reason_reported [of ?trav]
  obtain l3 where r3: "\<forall>next. SecurityLogger next ?trav = before l3 (next ?trav)"
    and e3: "(\<exists>pre post. Path ?trav = pre @ ''../'' @ post) \<longrightarrow>
          l3 = [suspicious_request_event ?trav ''Path traversal attempt'']"
    by (elim exE conjE) (rule that)
  have 3: "events (SecurityLogger (answer 200) ?trav)
      = [suspicious_request_event ?trav ''Path traversal attempt'']"
    using r3 e3 dots by (simp only: ev simp_thms)
  have clean: "\<not> match_sql (Path example_request) \<and> \<not> match_xss (Path example_request)
      \<and> \<not> match_traversal (Path example_request)"
    by (simp add: example_request_def match_sql_def match_xss_def match_traversal_def upper_simps)
  from security_reason_reported [of example_request]
  obtain l4 where r4: "\<forall>next. SecurityLogger next example_request = before l4 (next example_request)"
    and e4: "\<not> match_sql (Path example_request) \<and> \<not> match_xss (Path example_request)
      \<and> \<not> match_traversal (Path example_request) \<longrightarrow>
          l4 = [] \<and> (\<forall>next. SecurityLogger next example_request = next example_request)"
    by (elim exE conjE) (rule that)
  have 4: "SecurityLogger (answer 200) example_request = answer 200 example_request"
    using e4 clean by simp
  from 1 2 3 4 show ?thesis by (simp only: simp_thms)
qed

text \<open>
  A path that contains \<^verbatim>\<open><script\<close> and also \<^verbatim>\<open>../\<close> is reported as a path
  traversal, not as an XSS attempt.
\<close>

theorem xss_reason_overwritten:
  "''/<script>/../x'' = ''/'' @ ''<script'' @ ''>/../x''
   \<and> events (SecurityLogger (answer 200) (example_request\<lparr>Path := ''/<script>/../x''\<rparr>))
       = [suspicious_request_event (example_request\<lparr>Path := ''/<script>/../x''\<rparr>)
            ''Path traversal attempt'']
   \<and> suspicious_request_event (example_request\<lparr>Path := ''/<script>/../x''\<rparr>)
            ''Path traversal attempt''
       \<noteq> suspicious_request_event (example_request\<lparr>Path := ''/<script>/../x''\<rparr>) ''XSS attempt''"
  by (simp add: SecurityLogger_run match_traversal_def answer_def suspicious_request_event_def)

text \<open>
  C4. For every request whose path is a member of the configured exclusion list or matches
  one of the configured exclusion regular expressions, \<open>StructuredLogger\<close> is the rest of
  the chain and nothing else: no event is added, the body is not read, the clock is not
  read, and the context reaches the chain as it came.
\<close>

theorem excluded_path_forwarded:
  assumes "Path c \<in> set (sl_SkipPaths config)
           \<or> (\<exists>regex \<in> set (sl_SkipPathRegexps config). regex (Path c))"
  shows "StructuredLogger config next c = next c"
  using assms by (auto simp: StructuredLogger_def lookup_skip_make list_ex_iff Let_def)

text \<open>
  The health check of the example application, and an exclusion by regular expression.
\<close>

theorem excluded_path_forwarded_witness:
  "Path (example_request\<lparr>Path := ''/health''\<rparr>) \<in> set (sl_SkipPaths example_structured_config)
   \<and> StructuredLogger example_structured_config (answer 200) (example_request\<lparr>Path := ''/health''\<rparr>)
       = Returned (example_request\<lparr>Path := ''/health'', Status := 200\<rparr>) []
   \<and> StructuredLogger (example_structured_config\<lparr>sl_SkipPathRegexps := [\<lambda>p. take 5 p = ''/api/'']\<rparr>)
         (answer 200) example_request
       = Returned (example_request\<lparr>Status := 200\<rparr>) []"
proof -
  have 1: "Path (example_request\<lparr>Path := ''/health''\<rparr>) \<in> set (sl_SkipPaths example_structured_config)"
    by (simp add: example_structured_config_def)
  have 2: "\<exists>regex \<in> set (sl_SkipPathRegexps
      (example_structured_config\<lparr>sl_SkipPathRegexps := [\<lambda>p. take 5 p = ''/api/'']\<rparr>)).
      regex (Path example_request)"
    by (simp add: example_request_def)
  from 1 excluded_path_forwarded [of "example_request\<lparr>Path := ''/health''\<rparr>"
      example_structured_config "answer 200"]
    excluded_path_forwarded [of example_request
      "example_structured_config\<lparr>sl_SkipPathRegexps := [\<lambda>p. take 5 p = ''/api/'']\<rparr>" "answer 200"] 2
  show ?thesis
    by (simp add: answer_def)
qed

text \<open>
  C5. For every non-excluded request with body capture enabled and a declared length of at
  most the configured maximum, \<open>StructuredLogger\<close> and \<open>RequestBodyLogger\<close> read the body
  and restore an equal stream: the chain runs on a context with the full body (for the
  structured logger the context differs from the original in the clock reading only), and
  the bytes read are in the event. If the read fails, no body is logged and the chain still
  runs, on the drained stream.
\<close>

theorem body_read_and_restored:
  "(Path c \<notin> set (sl_SkipPaths scfg)
      \<and> \<not> (\<exists>regex \<in> set (sl_SkipPathRegexps scfg). regex (Path c))
      \<and> sl_LogRequestBody scfg
      \<and> ContentLength c \<le> default_MaxBodySize (sl_MaxBodySize scfg) \<longrightarrow>
      (ReqBody c = Some (Body bs EOF) \<longrightarrow>
         (\<forall>next c2 es. next (c\<lparr>Reads := Suc (Reads c)\<rparr>) = Returned c2 es \<longrightarrow>
            (\<exists>e c3. StructuredLogger scfg next c = Returned c3 (es @ [e])
               \<and> (bs \<noteq> [] \<longrightarrow> (''request_body'', VString bs) \<in> set (ev_fields e)))))
      \<and> (ReqBody c = Some (Body bs (ReadErr err)) \<longrightarrow>
         (\<forall>next c2 es.
            next (c\<lparr>Reads := Suc (Reads c), ReqBody := Some (Body [] (ReadErr err))\<rparr>)
              = Returned c2 es \<longrightarrow>
            (\<exists>e c3 own. StructuredLogger scfg next c = Returned c3 (es @ [e])
               \<and> ev_fields e =
                   bound (case sl_Logger scfg of None \<Rightarrow> GetLogger | Some l \<Rightarrow> l) @ own
                   @ (case sl_CustomFields scfg of None \<Rightarrow> [] | Some f \<Rightarrow> f c3)
               \<and> ''request_body'' \<notin> fst ` set own))))
   \<and> (Path c \<notin> set (bl_SkipPaths bcfg)
      \<and> ContentLength c \<le> default_MaxBodySize (bl_MaxBodySize bcfg) \<longrightarrow>
      (ReqBody c = Some (Body bs EOF) \<longrightarrow>
         (\<forall>next. RequestBodyLogger bcfg next c = before [request_body_event c bs] (next c)))
      \<and> (ReqBody c = Some (Body bs (ReadErr err)) \<longrightarrow>
         (\<forall>next. RequestBodyLogger bcfg next c
                   = next (c\<lparr>ReqBody := Some (Body [] (ReadErr err))\<rparr>))))"
proof (intro conjI impI allI)
  fix "next" :: HandlerFunc and c2 es
  assume h: "Path c \<notin> set (sl_SkipPaths scfg)
      \<and> \<not> (\<exists>regex \<in> set (sl_SkipPathRegexps scfg). regex (Path c))
      \<and> sl_LogRequestBody scfg
      \<and> ContentLength c \<le> default_MaxBodySize (sl_MaxBodySize scfg)"
    and body: "ReqBody c = Some (Body bs EOF)"
    and ret: "next (c\<lparr>Reads := Suc (Reads c)\<rparr>) = Returned c2 es"
  have cap: "capture_request_body scfg (default_MaxBodySize (sl_MaxBodySize scfg))
      (c\<lparr>Reads := Suc (Reads c)\<rparr>) = (bs, c\<lparr>Reads := Suc (Reads c)\<rparr>)"
    using h body by (intro capture_restored) simp_all
  from h have a1: "Path c \<notin> set (sl_SkipPaths scfg)"
    and a2: "\<not> (\<exists>regex \<in> set (sl_SkipPathRegexps scfg). regex (Path c))"
    by blast+
  from StructuredLogger_event [where ?next = "next", OF a1 a2 cap ret]
  show "\<exists>e c3. StructuredLogger scfg next c = Returned c3 (es @ [e])
               \<and> (bs \<noteq> [] \<longrightarrow> (''request_body'', VString bs) \<in> set (ev_fields e))"
    by blast
next
  fix "next" :: HandlerFunc and c2 es
  assume h: "Path c \<notin> set (sl_SkipPaths scfg)
      \<and> \<not> (\<exists>regex \<in> set (sl_SkipPathRegexps scfg). regex (Path c))
      \<and> sl_LogRequestBody scfg
      \<and> ContentLength c \<le> default_MaxBodySize (sl_MaxBodySize scfg)"
    and body: "ReqBody c = Some (Body bs (ReadErr err))"
    and ret: "next (c\<lparr>Reads := Suc (Reads c), ReqBody := Some (Body [] (ReadErr err))\<rparr>)
                = Returned c2 es"
  have cap: "capture_request_body scfg (default_MaxBodySize (sl_MaxBodySize scfg))
      (c\<lparr>Reads := Suc (Reads c)\<rparr>)
      = ([], c\<lparr>Reads := Suc (Reads c), ReqBody := Some (Body [] (ReadErr err))\<rparr>)"
    using h body capture_failed [of scfg "c\<lparr>Reads := Suc (Reads c)\<rparr>" bs err] by simp
  from h have a1: "Path c \<notin> set (sl_SkipPaths scfg)"
    and a2: "\<not> (\<exists>regex \<in> set (sl_SkipPathRegexps scfg). regex (Path c))"
    by blast+
  from StructuredLogger_event [where ?next = "next", OF a1 a2 cap ret]
  show "\<exists>e c3 own. StructuredLogger scfg next c = Returned c3 (es @ [e])
               \<and> ev_fields e =
                   bound (case sl_Logger scfg of None \<Rightarrow> GetLogger | Some l \<Rightarrow> l) @ own
                   @ (case sl_CustomFields scfg of None \<Rightarrow> [] | Some f \<Rightarrow> f c3)
               \<and> ''request_body'' \<notin> fst ` set own"
    by blast
next
  fix "next" :: HandlerFunc
  assume "Path c \<notin> set (bl_SkipPaths bcfg)
      \<and> ContentLength c \<le> default_MaxBodySize (bl_MaxBodySize bcfg)"
    and "ReqBody c = Some (Body bs EOF)"
  then show "RequestBodyLogger bcfg next c = before [request_body_event c bs] (next c)"
    by (simp add: RequestBodyLogger_restored)
next
  fix "next" :: HandlerFunc
  assume "Path c \<notin> set (bl_SkipPaths bcfg)
      \<and> ContentLength c \<le> default_MaxBodySize (bl_MaxBodySize bcfg)"
    and "ReqBody c = Some (Body bs (ReadErr err))"
  then show "RequestBodyLogger bcfg next c
               = next (c\<lparr>ReqBody := Some (Body [] (ReadErr err))\<rparr>)"
    by (simp add: RequestBodyLogger_failed)
qed

text \<open>
  A \<open>POST\<close> of nine bytes, and the same request on a connection that breaks.
\<close>

theorem body_read_and_restored_witness:
  "(\<exists>e c3. StructuredLogger example_structured_config (answer 201) example_post
              = Returned c3 [e]
            \<and> (''request_body'', VString ''name=John'') \<in> set (ev_fields e))
   \<and> RequestBodyLogger example_body_config (answer 201) example_post
       = Returned (example_post\<lparr>Status := 201\<rparr>) [request_body_event example_post ''name=John'']
   \<and> (\<exists>e c3 own. StructuredLogger example_structured_config (answer 400) example_broken_post
              = Returned c3 [e]
            \<and> ev_fields e = own @ [(''service'', VString ''gin-example''), (''version'', VString ''1.0.0'')]
            \<and> ''request_body'' \<notin> fst ` set own)
   \<and> RequestBodyLogger example_body_config (answer 400) example_broken_post
       = Returned (example_broken_post\<lparr>ReqBody := Some (Body [] (ReadErr ''unexpected EOF'')),
                    Status := 400\<rparr>) []"
proof -
  have sl: "Path example_post \<notin> set (sl_SkipPaths example_structured_config)
      \<and> \<not> (\<exists>regex \<in> set (sl_SkipPathRegexps example_structured_config). regex (Path example_post))
      \<and> sl_LogRequestBody example_structured_config
      \<and> ContentLength example_post
          \<le> default_MaxBodySize (sl_MaxBodySize example_structured_config)"
    by (simp add: example_post_def example_request_def example_structured_config_def
        default_MaxBodySize_def)
  have bl: "Path example_post \<notin> set (bl_SkipPaths example_body_config)
      \<and> ContentLength example_post \<le> default_MaxBodySize (bl_MaxBodySize example_body_config)"
    by (simp add: example_post_def example_request_def example_body_config_def
        default_MaxBodySize_def)
  have sl': "Path example_broken_post \<notin> set (sl_SkipPaths example_structured_config)
      \<and> \<not> (\<exists>regex \<in> set (sl_SkipPathRegexps example_structured_config).
              regex (Path example_broken_post))
      \<and> sl_LogRequestBody example_structured_config
      \<and> ContentLength example_broken_post
          \<le> default_MaxBodySize (sl_MaxBodySize example_structured_config)"
    using sl by (auto simp: example_broken_post_def)
  have bl': "Path example_broken_post \<notin> set (bl_SkipPaths example_body_config)
      \<and> ContentLength example_broken_post
          \<le> default_MaxBodySize (bl_MaxBodySize example_body_config)"
    using bl by (auto simp: example_broken_post_def)
  have ok: "ReqBody example_post = Some (Body ''name=John'' EOF)"
    by (simp add: example_post_def)
  have broken: "ReqBody example_broken_post = Some (Body ''name'' (ReadErr ''unexpected EOF''))"
    by (simp add: example_broken_post_def)
  note inst = body_read_and_restored [of example_post example_structured_config
      "''name=John''" "''unexpected EOF''" example_body_config]
  note inst' = body_read_and_restored [of example_broken_post example_structured_config
      "''name''" "''unexpected EOF''" example_body_config]
  have a1: "answer 201 (example_post\<lparr>Reads := Suc (Reads example_post)\<rparr>)
      = Returned (example_post\<lparr>Reads := Suc (Reads example_post), Status := 201\<rparr>) []"
    by (simp add: answer_def)
  from inst [THEN conjunct1, rule_format, OF sl, THEN conjunct1, rule_format, OF ok,
      where ?next = "answer 201", OF a1]
  have 1: "\<exists>e c3. StructuredLogger example_structured_config (answer 201) example_post
              = Returned c3 [e]
            \<and> (''request_body'', VString ''name=John'') \<in> set (ev_fields e)"
    by auto
  from inst [THEN conjunct2, rule_format, OF bl, THEN conjunct1, rule_format, OF ok, of "answer 201"]
  have 2: "RequestBodyLogger example_body_config (answer 201) example_post
       = Returned (example_post\<lparr>Status := 201\<rparr>) [request_body_event example_post ''name=John'']"
    by (simp add: answer_def)
  have a3: "answer 400 (example_broken_post\<lparr>Reads := Suc (Reads example_broken_post),
        ReqBody := Some (Body [] (ReadErr ''unexpected EOF''))\<rparr>)
      = Returned (example_broken_post\<lparr>Reads := Suc (Reads example_broken_post),
        ReqBody := Some (Body [] (ReadErr ''unexpected EOF'')), Status := 400\<rparr>) []"
    by (simp add: answer_def)
  from inst' [THEN conjunct1, rule_format, OF sl', THEN conjunct2, rule_format, OF broken,
      where ?next = "answer 400", OF a3]
  have 3: "\<exists>e c3 own. StructuredLogger example_structured_config (answer 400) example_broken_post
              = Returned c3 [e]
            \<and> ev_fields e = own @ [(''service'', VString ''gin-example''), (''version'', VString ''1.0.0'')]
            \<and> ''request_body'' \<notin> fst ` set own"
    by (auto simp: example_structured_config_def GetLogger_def zap_String_def)
  from inst' [THEN conjunct2, rule_format, OF bl', THEN conjunct2, rule_format, OF broken,
      of "answer 400"]
  have 4: "RequestBodyLogger example_body_config (answer 400) example_broken_post
       = Returned (example_broken_post\<lparr>ReqBody := Some (Body [] (ReadErr ''unexpected EOF'')),
                    Status := 400\<rparr>) []"
    by (simp add: answer_def)
  from 1 2 3 4 show ?thesis by (simp only: simp_thms)
qed






text \<open>
  C8. For every request, \<open>PerformanceLogger\<close> adds exactly one warning-level event when the
  latency it measures (the clock reading after the chain minus the one before) exceeds one
  second, and no event otherwise, whatever status the chain leaves. A panic of the chain
  passes through and nothing is measured.
\<close>

theorem slow_request_warning:
  "(\<forall>v c2 es. next (c\<lparr>Reads := Suc (Reads c)\<rparr>) = Panicked v c2 es \<longrightarrow>
      PerformanceLogger next c = Panicked v c2 es)
   \<and> (\<forall>c2 es. next (c\<lparr>Reads := Suc (Reads c)\<rparr>) = Returned c2 es \<longrightarrow>
        (int (Clock c2 (Reads c2)) - int (Clock c (Reads c)) > 1000000000 \<longrightarrow>
           (\<exists>e. PerformanceLogger next c = Returned (c2\<lparr>Reads := Suc (Reads c2)\<rparr>) (es @ [e])
              \<and> ev_level e = Warn \<and> ev_message e = ''Slow request detected''))
        \<and> (int (Clock c2 (Reads c2)) - int (Clock c (Reads c)) \<le> 1000000000 \<longrightarrow>
             PerformanceLogger next c = Returned (c2\<lparr>Reads := Suc (Reads c2)\<rparr>) es))"
  by (simp add: PerformanceLogger_def time_Now_def time_Since_def Second_def emit_def Let_def)

text \<open>
  A handler that takes two seconds, and a fast one that answers 500.
\<close>

theorem slow_request_warning_witness:
  "(\<exists>e. PerformanceLogger (taking 2000000000) example_request
           = Returned (example_request\<lparr>Clock := \<lambda>i. 1000000 * i + 2000000000, Reads := 2\<rparr>) [e]
        \<and> ev_level e = Warn)
   \<and> PerformanceLogger (answer 500) example_request
       = Returned (example_request\<lparr>Status := 500, Reads := 2\<rparr>) []"
proof -
  have 1: "taking 2000000000 (example_request\<lparr>Reads := Suc (Reads example_request)\<rparr>)
      = Returned (example_request\<lparr>Clock := \<lambda>i. 1000000 * i + 2000000000, Reads := 1\<rparr>) []"
    by (simp add: taking_def example_request_def)
  have 2: "answer 500 (example_request\<lparr>Reads := Suc (Reads example_request)\<rparr>)
      = Returned (example_request\<lparr>Status := 500, Reads := 1\<rparr>) []"
    by (simp add: answer_def example_request_def)
  have slow: "int (Clock (example_request\<lparr>Clock := \<lambda>i. 1000000 * i + 2000000000, Reads := 1\<rparr>)
                 (Reads (example_request\<lparr>Clock := \<lambda>i. 1000000 * i + 2000000000, Reads := 1\<rparr>)))
        - int (Clock example_request (Reads example_request)) > 1000000000"
    by (simp add: example_request_def)
  have fast: "int (Clock (example_request\<lparr>Status := 500, Reads := 1\<rparr>)
                 (Reads (example_request\<lparr>Status := 500, Reads := 1\<rparr>)))
        - int (Clock example_request (Reads example_request)) \<le> 1000000000"
    by (simp add: example_request_def)
  from slow_request_warning [of "taking 2000000000" example_request] 1 slow
  have a: "\<exists>e. PerformanceLogger (taking 2000000000) example_request
           = Returned (example_request\<lparr>Clock := \<lambda>i. 1000000 * i + 2000000000, Reads := 2\<rparr>) [e]
        \<and> ev_level e = Warn"
    by (auto simp: numeral_2_eq_2)
  from slow_request_warning [of "answer 500" example_request] 2 fast
  have b: "PerformanceLogger (answer 500) example_request
       = Returned (example_request\<lparr>Status := 500, Reads := 2\<rparr>) []"
    by (auto simp: numeral_2_eq_2)
  from a b show ?thesis by blast
qed

text \<open>
  C9. \<open>LoggerFromContext\<close> returns the global handle exactly when neither \<open>request_id\<close>
  nor \<open>user_id\<close> is a non-empty string of the request context, and otherwise a handle bound
  with exactly the identity fields present at the call. Setting \<open>user_id\<close> where it was
  absent changes the handle by that one field.
\<close>

theorem scoped_logger_fields:
  "bound (LoggerFromContext c) =
      (if GetString c ''request_id'' \<noteq> []
       then [(''request_id'', VString (GetString c ''request_id''))] else [])
    @ (if GetString c ''user_id'' \<noteq> []
       then [(''user_id'', VString (GetString c ''user_id''))] else [])
   \<and> (LoggerFromContext c = GetLogger
        \<longleftrightarrow> GetString c ''request_id'' = [] \<and> GetString c ''user_id'' = [])
   \<and> (GetString c ''user_id'' = [] \<and> u \<noteq> [] \<longrightarrow>
        bound (LoggerFromContext (Set_key ''user_id'' (AnyString u) c))
          = bound (LoggerFromContext c) @ [(''user_id'', VString u)]
        \<and> ''user_id'' \<notin> fst ` set (bound (LoggerFromContext c)))"
  by (auto simp: LoggerFromContext_def GetLogger_def With_def request_id_field_def
      user_id_field_def zap_String_def GetString_def Set_key_def Let_def)

text \<open>
  A request before and after \<open>request_id\<close> and \<open>user_id\<close> are set.
\<close>

theorem scoped_logger_fields_witness:
  "LoggerFromContext example_request = GetLogger
   \<and> GetString (Set_key ''request_id'' (AnyString ''r-1'') example_request) ''user_id'' = []
   \<and> bound (LoggerFromContext (Set_key ''request_id'' (AnyString ''r-1'') example_request))
       = [(''request_id'', VString ''r-1'')]
   \<and> bound (LoggerFromContext
        (Set_key ''user_id'' (AnyString ''42'')
           (Set_key ''request_id'' (AnyString ''r-1'') example_request)))
       = [(''request_id'', VString ''r-1''), (''user_id'', VString ''42'')]"
proof -
  let ?c = "Set_key ''request_id'' (AnyString ''r-1'') example_request"
  have none: "GetString example_request ''request_id'' = [] \<and> GetString example_request ''user_id'' = []"
    by (simp add: GetString_def example_request_def)
  have rid: "GetString ?c ''request_id'' = ''r-1'' \<and> GetString ?c ''user_id'' = []"
    by (simp add: GetString_def Set_key_def example_request_def)
  from scoped_logger_fields [of example_request "''42''"] none
  have 1: "LoggerFromContext example_request = GetLogger" by simp
  from scoped_logger_fields [of ?c "''42''"] rid
  have 2: "bound (LoggerFromContext ?c) = [(''request_id'', VString ''r-1'')]"
    and 3: "bound (LoggerFromContext (Set_key ''user_id'' (AnyString ''42'') ?c))
       = [(''request_id'', VString ''r-1''), (''user_id'', VString ''42'')]"
    by simp_all
  from 1 2 3 rid show ?thesis by simp
qed

text \<open>
  C10, as the code has it. For every non-excluded request with body capture enabled, a
  readable non-nil body, a negative declared content length and a configured maximum that
  is not negative, the size guard passes and the whole body is read and logged, whatever
  its length (\<open>StructuredLogger\<close> leaves out the field only when the body is empty): the
  maximum bounds the declared length, never the bytes read.
\<close>

theorem unknown_length_captured:
  assumes "ContentLength c < 0" and "ReqBody c = Some (Body bs EOF)"
  shows "(0 \<le> sl_MaxBodySize scfg \<and> sl_LogRequestBody scfg
            \<and> Path c \<notin> set (sl_SkipPaths scfg)
            \<and> \<not> (\<exists>regex \<in> set (sl_SkipPathRegexps scfg). regex (Path c)) \<longrightarrow>
          ContentLength c \<le> default_MaxBodySize (sl_MaxBodySize scfg)
          \<and> (\<forall>next c2 es. next (c\<lparr>Reads := Suc (Reads c)\<rparr>) = Returned c2 es \<longrightarrow>
               (\<exists>e c3. StructuredLogger scfg next c = Returned c3 (es @ [e])
                  \<and> (bs \<noteq> [] \<longrightarrow> (''request_body'', VString bs) \<in> set (ev_fields e)))))
       \<and> (0 \<le> bl_MaxBodySize bcfg \<and> Path c \<notin> set (bl_SkipPaths bcfg) \<longrightarrow>
          ContentLength c \<le> default_MaxBodySize (bl_MaxBodySize bcfg)
          \<and> (\<forall>next. RequestBodyLogger bcfg next c = before [request_body_event c bs] (next c)))"
proof (intro conjI impI allI)
  assume "0 \<le> sl_MaxBodySize scfg \<and> sl_LogRequestBody scfg
            \<and> Path c \<notin> set (sl_SkipPaths scfg)
            \<and> \<not> (\<exists>regex \<in> set (sl_SkipPathRegexps scfg). regex (Path c))"
  then show "ContentLength c \<le> default_MaxBodySize (sl_MaxBodySize scfg)"
    using assms(1) default_MaxBodySize_nonneg [of "sl_MaxBodySize scfg"] by simp
next
  fix "next" :: HandlerFunc and c2 es
  assume h: "0 \<le> sl_MaxBodySize scfg \<and> sl_LogRequestBody scfg
            \<and> Path c \<notin> set (sl_SkipPaths scfg)
            \<and> \<not> (\<exists>regex \<in> set (sl_SkipPathRegexps scfg). regex (Path c))"
    and ret: "next (c\<lparr>Reads := Suc (Reads c)\<rparr>) = Returned c2 es"
  have len: "ContentLength c \<le> default_MaxBodySize (sl_MaxBodySize scfg)"
    using h assms(1) default_MaxBodySize_nonneg [of "sl_MaxBodySize scfg"] by simp
  have cap: "capture_request_body scfg (default_MaxBodySize (sl_MaxBodySize scfg))
      (c\<lparr>Reads := Suc (Reads c)\<rparr>) = (bs, c\<lparr>Reads := Suc (Reads c)\<rparr>)"
    using h assms(2) len by (intro capture_restored) simp_all
  from h have a1: "Path c \<notin> set (sl_SkipPaths scfg)"
    and a2: "\<not> (\<exists>regex \<in> set (sl_SkipPathRegexps scfg). regex (Path c))"
    by blast+
  from StructuredLogger_event [where ?next = "next", OF a1 a2 cap ret]
  show "\<exists>e c3. StructuredLogger scfg next c = Returned c3 (es @ [e])
                  \<and> (bs \<noteq> [] \<longrightarrow> (''request_body'', VString bs) \<in> set (ev_fields e))"
    by blast
next
  assume "0 \<le> bl_MaxBodySize bcfg \<and> Path c \<notin> set (bl_SkipPaths bcfg)"
  then show "ContentLength c \<le> default_MaxBodySize (bl_MaxBodySize bcfg)"
    using assms(1) default_MaxBodySize_nonneg [of "bl_MaxBodySize bcfg"] by simp
next
  fix "next" :: HandlerFunc
  assume h: "0 \<le> bl_MaxBodySize bcfg \<and> Path c \<notin> set (bl_SkipPaths bcfg)"
  then have len: "ContentLength c \<le> default_MaxBodySize (bl_MaxBodySize bcfg)"
    using assms(1) default_MaxBodySize_nonneg [of "bl_MaxBodySize bcfg"] by simp
  from h len assms(2)
  show "RequestBodyLogger bcfg next c = before [request_body_event c bs] (next c)"
    by (simp add: RequestBodyLogger_restored)
qed

text \<open>
  Ten bytes of undeclared length under a maximum of four.
\<close>

theorem unknown_length_captured_witness:
  "ContentLength (example_post\<lparr>ReqBody := Some (Body ''0123456789'' EOF), ContentLength := - 1\<rparr>) < 0
   \<and> 4 < int (length ''0123456789'')
   \<and> (\<exists>e c3. StructuredLogger (example_structured_config\<lparr>sl_MaxBodySize := 4\<rparr>) (answer 201)
                 (example_post\<lparr>ReqBody := Some (Body ''0123456789'' EOF), ContentLength := - 1\<rparr>)
                = Returned c3 [e]
              \<and> (''request_body'', VString ''0123456789'') \<in> set (ev_fields e))
   \<and> RequestBodyLogger \<lparr>bl_MaxBodySize = 4, bl_SkipPaths = []\<rparr> (answer 201)
         (example_post\<lparr>ReqBody := Some (Body ''0123456789'' EOF), ContentLength := - 1\<rparr>)
       = Returned (example_post\<lparr>ReqBody := Some (Body ''0123456789'' EOF), ContentLength := - 1,
                     Status := 201\<rparr>)
           [request_body_event
              (example_post\<lparr>ReqBody := Some (Body ''0123456789'' EOF), ContentLength := - 1\<rparr>)
              ''0123456789'']"
proof -
  let ?c = "example_post\<lparr>ReqBody := Some (Body ''0123456789'' EOF), ContentLength := - 1\<rparr>"
  let ?scfg = "example_structured_config\<lparr>sl_MaxBodySize := 4\<rparr>"
  let ?bcfg = "\<lparr>bl_MaxBodySize = 4, bl_SkipPaths = []\<rparr>"
  have neg: "ContentLength ?c < 0" by simp
  have body: "ReqBody ?c = Some (Body ''0123456789'' EOF)" by simp
  have sl: "0 \<le> sl_MaxBodySize ?scfg \<and> sl_LogRequestBody ?scfg
            \<and> Path ?c \<notin> set (sl_SkipPaths ?scfg)
            \<and> \<not> (\<exists>regex \<in> set (sl_SkipPathRegexps ?scfg). regex (Path ?c))"
    by (simp add: example_post_def example_request_def example_structured_config_def)
  have bl: "0 \<le> bl_MaxBodySize ?bcfg \<and> Path ?c \<notin> set (bl_SkipPaths ?bcfg)"
    by simp
  note inst = unknown_length_captured [OF neg body, of ?scfg ?bcfg]
  have a: "answer 201 (?c\<lparr>Reads := Suc (Reads ?c)\<rparr>)
      = Returned (?c\<lparr>Reads := Suc (Reads ?c), Status := 201\<rparr>) []"
    by (simp add: answer_def)
  from inst [THEN conjunct1, rule_format, OF sl, THEN conjunct2, rule_format,
      where ?next = "answer 201", OF a]
  have 1: "\<exists>e c3. StructuredLogger ?scfg (answer 201) ?c = Returned c3 [e]
              \<and> (''request_body'', VString ''0123456789'') \<in> set (ev_fields e)"
    by auto
  from inst [THEN conjunct2, rule_format, OF bl, THEN conjunct2, rule_format, of "answer 201"]
  have 2: "RequestBodyLogger ?bcfg (answer 201) ?c
       = Returned (?c\<lparr>Status := 201\<rparr>) [request_body_event ?c ''0123456789'']"
    by (simp add: answer_def)
  from neg 1 2 show ?thesis by simp
qed

text \<open>
  Under a negative maximum the guard fails for an undeclared length too.
\<close>

theorem negative_maximum_blocks_capture:
  "ContentLength (example_request\<lparr>ReqBody := Some (Body ''{}'' EOF), ContentLength := - 1\<rparr>) < 0
   \<and> ReqBody (example_request\<lparr>ReqBody := Some (Body ''{}'' EOF), ContentLength := - 1\<rparr>) \<noteq> None
   \<and> \<not> ContentLength (example_request\<lparr>ReqBody := Some (Body ''{}'' EOF), ContentLength := - 1\<rparr>)
         \<le> default_MaxBodySize (bl_MaxBodySize \<lparr>bl_MaxBodySize = - 2, bl_SkipPaths = []\<rparr>)
   \<and> events (RequestBodyLogger \<lparr>bl_MaxBodySize = - 2, bl_SkipPaths = []\<rparr> (answer 200)
               (example_request\<lparr>ReqBody := Some (Body ''{}'' EOF), ContentLength := - 1\<rparr>)) = []"
  by (simp add: RequestBodyLogger_not_captured default_MaxBodySize_def answer_def)

end
